theory Spec2Isabelle
  imports Main "HOL-Library.Word"
begin

section \<open>JavaScript values shared by the two services\<close>

text \<open>
  A JavaScript string is a sequence of UTF-16 code units. A \<open>Date\<close> is its
  \<open>getTime()\<close> value, the milliseconds since the epoch, and two dates compare as these
  numbers do. A \<open>number\<close> that counts something is an \<open>int\<close>, which is exact below
  \<open>2^53\<close>.
\<close>

type_synonym jsstring = "16 word list"

type_synonym byte = "8 word"

type_synonym date = int

text \<open>String and buffer literals, written in ASCII.\<close>

definition lit :: "string \<Rightarrow> jsstring" where
  "lit s = map of_char s"

definition bytes :: "string \<Rightarrow> byte list" where
  "bytes s = map of_char s"

text \<open>
  \<open>String.prototype.trim\<close> removes white space and line terminators from both ends:
  TAB, LF, VT, FF, CR, SP, NBSP, the other space separators, LS, PS and the BOM.
\<close>

definition isWhiteSpace :: "16 word \<Rightarrow> bool" where
  "isWhiteSpace c \<longleftrightarrow>
     (0x9 \<le> c \<and> c \<le> 0xD) \<or> c = 0x20 \<or> c = 0xA0 \<or> c = 0x1680 \<or>
     (0x2000 \<le> c \<and> c \<le> 0x200A) \<or> c = 0x2028 \<or> c = 0x2029 \<or> c = 0x202F \<or>
     c = 0x205F \<or> c = 0x3000 \<or> c = 0xFEFF"

definition trim :: "jsstring \<Rightarrow> jsstring" where
  "trim s = rev (dropWhile isWhiteSpace (rev (dropWhile isWhiteSpace s)))"

text \<open>
  \<open>s.split('\n')\<close>: the pieces of \<open>s\<close> between line feeds, in order; there is always at
  least one piece, and the last one is what follows the last line feed.
\<close>

fun split_newline :: "jsstring \<Rightarrow> jsstring list" where
  "split_newline [] = [[]]"
| "split_newline (c # cs) =
     (if c = 0xA then [] # split_newline cs
      else (case split_newline cs of [] \<Rightarrow> [[c]] | l # ls \<Rightarrow> (c # l) # ls))"

text \<open>An optional string is truthy when it is present and not empty.\<close>

definition truthy :: "jsstring option \<Rightarrow> bool" where
  "truthy s = (case s of None \<Rightarrow> False | Some v \<Rightarrow> v \<noteq> [])"

text \<open>The tagged errors of \<open>errors.ts\<close> that the two services raise.\<close>

datatype svc_error =
    ClaudeProcessError jsstring "int option" "jsstring option"
  | ClaudeTimeoutError jsstring int
  | ClaudeOutputParseError jsstring jsstring
  | SessionNotFoundError jsstring
  | SessionExpiredError jsstring date
  | SessionCreationError jsstring jsstring

section \<open>Session manager (session-manager.service.ts)\<close>

text \<open>
  \<open>SessionState\<close> is the stored record and \<open>Session\<close> the view handed to callers
  (\<open>schemas.ts\<close>). An optional property is an \<open>option\<close>; the metadata record is kept
  abstract.
\<close>

record 'm SessionState =
  sessionId :: jsstring
  userId :: jsstring
  createdAt :: date
  lastAccessedAt :: date
  expiresAt :: date
  claudeSessionId :: "jsstring option"
  taskCount :: int
  metadata :: "'m option"

record 'm Session =
  sess_sessionId :: jsstring
  sess_userId :: jsstring
  sess_createdAt :: date
  sess_updatedAt :: date
  sess_expiresAt :: date
  sess_claudeSessionId :: "jsstring option"
  sess_metadata :: "'m option"

text \<open>
  \<open>Partial<SessionState>\<close>: every property may be missing (\<open>None\<close>) or supplied
  (\<open>Some v\<close>). A supplied optional property may itself be \<open>undefined\<close>; a supplied
  required property has a value of its type.
\<close>

record 'm SessionUpdates =
  upd_sessionId :: "jsstring option"
  upd_userId :: "jsstring option"
  upd_createdAt :: "date option"
  upd_lastAccessedAt :: "date option"
  upd_expiresAt :: "date option"
  upd_claudeSessionId :: "jsstring option option"
  upd_taskCount :: "int option"
  upd_metadata :: "'m option option"

text \<open>The \<open>Ref\<close> holds a \<open>Map<string, SessionState>\<close>.\<close>

type_synonym 'm sessions = "jsstring \<rightharpoonup> 'm SessionState"


definition getSession ::
  "date \<Rightarrow> jsstring \<Rightarrow> 'm sessions \<Rightarrow> (svc_error + 'm Session) \<times> 'm sessions" where
  "getSession now sid sessions =
     (case sessions sid of
        None \<Rightarrow> (Inl (SessionNotFoundError sid), sessions)
      | Some session \<Rightarrow>
          if now > expiresAt session
          then (Inl (SessionExpiredError sid (expiresAt session)), sessions(sid := None))
          else (Inr \<lparr>sess_sessionId = sessionId session,
                     sess_userId = userId session,
                     sess_createdAt = createdAt session,
                     sess_updatedAt = now,
                     sess_expiresAt = expiresAt session,
                     sess_claudeSessionId = claudeSessionId session,
                     sess_metadata = metadata session\<rparr>,
                sessions(sid \<mapsto> session\<lparr>lastAccessedAt := now\<rparr>)))"

text \<open>
  The object spread \<open>{...session, ...updates}\<close>: a property that \<open>updates\<close> supplies
  replaces the one of \<open>session\<close>.
\<close>

definition supplied :: "'a \<Rightarrow> 'a option \<Rightarrow> 'a" where
  "supplied old new = (case new of None \<Rightarrow> old | Some v \<Rightarrow> v)"

definition spread :: "'m SessionState \<Rightarrow> 'm SessionUpdates \<Rightarrow> 'm SessionState" where
  "spread session updates =
     \<lparr>sessionId = supplied (sessionId session) (upd_sessionId updates),
      userId = supplied (userId session) (upd_userId updates),
      createdAt = supplied (createdAt session) (upd_createdAt updates),
      lastAccessedAt = supplied (lastAccessedAt session) (upd_lastAccessedAt updates),
      expiresAt = supplied (expiresAt session) (upd_expiresAt updates),
      claudeSessionId = supplied (claudeSessionId session) (upd_claudeSessionId updates),
      taskCount = supplied (taskCount session) (upd_taskCount updates),
      metadata = supplied (metadata session) (upd_metadata updates)\<rparr>"

definition updateSession ::
  "date \<Rightarrow> jsstring \<Rightarrow> 'm SessionUpdates \<Rightarrow> 'm sessions
    \<Rightarrow> (svc_error + unit) \<times> 'm sessions" where
  "updateSession now sid updates sessions =
     (case sessions sid of
        None \<Rightarrow> (Inl (SessionNotFoundError sid), sessions)
      | Some session \<Rightarrow>
          (let updatedSession = (spread session updates)
                 \<lparr>sessionId := sessionId session,
                  userId := userId session,
                  createdAt := createdAt session,
                  lastAccessedAt := now\<rparr>
           in (Inr (), sessions(sid \<mapsto> updatedSession))))"

text \<open>
  \<open>updateSession\<close> consists of two operations on the \<open>Ref\<close>: the \<open>Ref.get\<close> that
  reads the session, and the \<open>Ref.update\<close> that stores the record computed from the
  session read before. Between the two, another fiber may run its own operation on the
  \<open>Ref\<close>.
\<close>

definition updateSession_get :: "jsstring \<Rightarrow> 'm sessions \<Rightarrow> 'm SessionState option" where
  "updateSession_get sid sessions = sessions sid"

definition updateSession_put ::
  "date \<Rightarrow> jsstring \<Rightarrow> 'm SessionUpdates \<Rightarrow> 'm SessionState \<Rightarrow> 'm sessions
    \<Rightarrow> 'm sessions" where
  "updateSession_put now sid updates session sessions =
     (let updatedSession = (spread session updates)
            \<lparr>sessionId := sessionId session,
             userId := userId session,
             createdAt := createdAt session,
             lastAccessedAt := now\<rparr>
      in sessions(sid \<mapsto> updatedSession))"

definition deleteSession ::
  "jsstring \<Rightarrow> 'm sessions \<Rightarrow> (svc_error + unit) \<times> 'm sessions" where
  "deleteSession sid sessions =
     (case sessions sid of
        None \<Rightarrow> (Inl (SessionNotFoundError sid), sessions)
      | Some session \<Rightarrow> (Inr (), sessions(sid := None)))"

definition incrementTaskCount ::
  "date \<Rightarrow> jsstring \<Rightarrow> 'm sessions \<Rightarrow> (svc_error + unit) \<times> 'm sessions" where
  "incrementTaskCount now sid sessions =
     (Inr (),
      (case sessions sid of
         Some session \<Rightarrow>
           sessions(sid \<mapsto> session\<lparr>taskCount := taskCount session + 1,
                                     lastAccessedAt := now\<rparr>)
       | None \<Rightarrow> sessions))"

section \<open>Claude service (claude.service.ts)\<close>

subsection \<open>Buffers\<close>

text \<open>
  \<open>chunk.toString()\<close> on a Node \<open>Buffer\<close> decodes the bytes of that one buffer as UTF-8.
  A byte sequence that is not well-formed, also one that the end of the buffer cuts
  short, decodes to U+FFFD, one for every maximal ill-formed part; a code point above
  U+FFFF becomes a surrogate pair. The decoder state is the code point collected so far,
  the number of continuation bytes still needed and the range allowed for the next one.
\<close>

type_synonym utf8_state = "nat \<times> nat \<times> nat \<times> nat"

definition utf8_start :: utf8_state where
  "utf8_start = (0, 0, 0x80, 0xBF)"

definition utf8_lead :: "nat \<Rightarrow> utf8_state \<times> nat list" where
  "utf8_lead b =
     (if b < 0x80 then (utf8_start, [b])
      else if 0xC2 \<le> b \<and> b \<le> 0xDF then ((b mod 0x20, 1, 0x80, 0xBF), [])
      else if 0xE0 \<le> b \<and> b \<le> 0xEF
        then ((b mod 0x10, 2, if b = 0xE0 then 0xA0 else 0x80,
               if b = 0xED then 0x9F else 0xBF), [])
      else if 0xF0 \<le> b \<and> b \<le> 0xF4
        then ((b mod 8, 3, if b = 0xF0 then 0x90 else 0x80,
               if b = 0xF4 then 0x8F else 0xBF), [])
      else (utf8_start, [0xFFFD]))"

fun utf8_step :: "utf8_state \<Rightarrow> nat \<Rightarrow> utf8_state \<times> nat list" where
  "utf8_step (cp, needed, lower, upper) b =
     (if needed = 0 then utf8_lead b
      else if b < lower \<or> upper < b
        then (case utf8_lead b of (s, out) \<Rightarrow> (s, 0xFFFD # out))
      else (let cp' = cp * 0x40 + b mod 0x40
            in if needed = 1 then (utf8_start, [cp'])
               else ((cp', needed - 1, 0x80, 0xBF), [])))"

fun utf8_decode :: "utf8_state \<Rightarrow> byte list \<Rightarrow> nat list" where
  "utf8_decode (cp, needed, lower, upper) [] = (if needed = 0 then [] else [0xFFFD])"
| "utf8_decode s (b # bs) =
     (case utf8_step s (unat b) of (s', out) \<Rightarrow> out @ utf8_decode s' bs)"

definition utf16 :: "nat \<Rightarrow> jsstring" where
  "utf16 c =
     (if c < 0x10000 then [of_nat c]
      else [of_nat (0xD800 + (c - 0x10000) div 0x400),
            of_nat (0xDC00 + (c - 0x10000) mod 0x400)])"

definition toString :: "byte list \<Rightarrow> jsstring" where
  "toString chunk = concat (map utf16 (utf8_decode utf8_start chunk))"

subsection \<open>parseOutputStream\<close>

text \<open>
  The callback given to \<open>Stream.async\<close> registers four listeners on the child process.
  Each listener is modelled by the calls it makes on \<open>emit\<close>, in order: \<open>emit.single\<close>,
  \<open>emit.fail\<close> and \<open>emit.end\<close>. \<open>JSON.parse\<close> is a parameter: it returns the parsed
  value (\<open>Inr\<close>) or throws (\<open>Inl\<close>, the error as the message interpolates it).
\<close>

datatype 'e emit = Single 'e | Fail svc_error | End

type_synonym 'e json_parse = "jsstring \<Rightarrow> jsstring + 'e"

text \<open>The body of the loop over the complete lines.\<close>

definition processLine :: "'e json_parse \<Rightarrow> jsstring \<Rightarrow> 'e emit list" where
  "processLine parse line =
     (let trimmed = trim line
      in if trimmed = [] then []
         else (case parse trimmed of
                 Inr parsed \<Rightarrow> [Single parsed]
               | Inl error \<Rightarrow>
                   [Fail (ClaudeOutputParseError
                            (lit ''Failed to parse Claude output: '' @ error) trimmed)]))"

text \<open>\<open>lines.pop() || ''\<close>.\<close>

definition pop_or_empty :: "jsstring list \<Rightarrow> jsstring" where
  "pop_or_empty lines = (if lines = [] then [] else last lines)"

text \<open>
  The \<open>data\<close> listener of stdout, from the buffer before the chunk to the buffer after it
  and the calls made.
\<close>

definition onData ::
  "'e json_parse \<Rightarrow> jsstring \<Rightarrow> byte list \<Rightarrow> jsstring \<times> 'e emit list" where
  "onData parse buffer chunk =
     (let buffer1 = buffer @ toString chunk;
          lines = split_newline buffer1;
          buffer2 = pop_or_empty lines;
          lines1 = butlast lines
      in (buffer2, concat (map (processLine parse) lines1)))"

text \<open>The \<open>close\<close> listener.\<close>

definition onClose :: "'e json_parse \<Rightarrow> jsstring \<Rightarrow> 'e emit list" where
  "onClose parse buffer =
     (if trim buffer \<noteq> []
      then (case parse (trim buffer) of
              Inr parsed \<Rightarrow> [Single parsed, End]
            | Inl error \<Rightarrow> [End])
      else [End])"

text \<open>The \<open>error\<close> listener.\<close>

definition onError :: "jsstring \<Rightarrow> 'e emit list" where
  "onError message =
     [Fail (ClaudeProcessError (lit ''Claude process error: '' @ message) None None)]"

text \<open>
  What the child process does, as the events Node delivers to the listeners. The
  \<open>data\<close> listener of stderr only logs.
\<close>

datatype proc_event =
    StdoutData "byte list"
  | StderrData "byte list"
  | Close "int option"
  | Error jsstring

fun listeners :: "'e json_parse \<Rightarrow> jsstring \<Rightarrow> proc_event list \<Rightarrow> 'e emit list" where
  "listeners parse buffer [] = []"
| "listeners parse buffer (StdoutData chunk # evs) =
     (case onData parse buffer chunk of
        (buffer', emits) \<Rightarrow> emits @ listeners parse buffer' evs)"
| "listeners parse buffer (StderrData chunk # evs) = listeners parse buffer evs"
| "listeners parse buffer (Close code # evs) =
     onClose parse buffer @ listeners parse buffer evs"
| "listeners parse buffer (Error message # evs) =
     onError message @ listeners parse buffer evs"

text \<open>
  \<open>Stream.async\<close> of the Effect library turns the calls on \<open>emit\<close> into the stream its
  consumer reads: the values of \<open>emit.single\<close> are the elements, \<open>emit.end\<close> ends the
  stream, and \<open>emit.fail\<close> terminates it with the given error; nothing emitted after the
  stream has terminated reaches the consumer. A stream that no call has terminated is
  still open (\<open>None\<close>).
\<close>

datatype stream_exit = StreamEnd | StreamFail svc_error

fun Stream_async :: "'e emit list \<Rightarrow> 'e list \<times> stream_exit option" where
  "Stream_async [] = ([], None)"
| "Stream_async (Single a # emits) =
     (case Stream_async emits of (as, exit) \<Rightarrow> (a # as, exit))"
| "Stream_async (Fail error # emits) = ([], Some (StreamFail error))"
| "Stream_async (End # emits) = ([], Some StreamEnd)"

definition parseOutputStream ::
  "'e json_parse \<Rightarrow> proc_event list \<Rightarrow> 'e list \<times> stream_exit option" where
  "parseOutputStream parse evs = Stream_async (listeners parse [] evs)"

text \<open>
  The value of the variable \<open>buffer\<close> after the listeners have handled a list of
  events.
\<close>

fun bufferAfter :: "'e json_parse \<Rightarrow> jsstring \<Rightarrow> proc_event list \<Rightarrow> jsstring" where
  "bufferAfter parse buffer [] = buffer"
| "bufferAfter parse buffer (StdoutData chunk # evs) =
     (case onData parse buffer chunk of
        (buffer', emits) \<Rightarrow> bufferAfter parse buffer' evs)"
| "bufferAfter parse buffer (StderrData chunk # evs) = bufferAfter parse buffer evs"
| "bufferAfter parse buffer (Close code # evs) = bufferAfter parse buffer evs"
| "bufferAfter parse buffer (Error message # evs) = bufferAfter parse buffer evs"

text \<open>
  A listener that is registered once the stream has terminated sees only the events
  that the process emits after the one whose listener terminated the stream.
\<close>

fun terminal :: "'e emit \<Rightarrow> bool" where
  "terminal (Single a) = False"
| "terminal (Fail error) = True"
| "terminal End = True"

fun afterTermination ::
  "'e json_parse \<Rightarrow> jsstring \<Rightarrow> proc_event list \<Rightarrow> proc_event list" where
  "afterTermination parse buffer [] = []"
| "afterTermination parse buffer (StdoutData chunk # evs) =
     (case onData parse buffer chunk of
        (buffer', emits) \<Rightarrow>
          if list_ex terminal emits then evs else afterTermination parse buffer' evs)"
| "afterTermination parse buffer (StderrData chunk # evs) =
     afterTermination parse buffer evs"
| "afterTermination parse buffer (Close code # evs) =
     (if list_ex terminal (onClose parse buffer) then evs
      else afterTermination parse buffer evs)"
| "afterTermination parse buffer (Error message # evs) =
     (if list_ex terminal (onError message :: 'e emit list) then evs
      else afterTermination parse buffer evs)"

text \<open>
  The code that a \<open>close\<close> listener receives: that of the first \<open>close\<close> event among
  the events it sees, if there is one. Node emits \<open>close\<close> once for a child process.
\<close>

fun isClose :: "proc_event \<Rightarrow> bool" where
  "isClose (Close code) = True"
| "isClose (StdoutData chunk) = False"
| "isClose (StderrData chunk) = False"
| "isClose (Error message) = False"

fun firstClose :: "proc_event list \<Rightarrow> int option option" where
  "firstClose [] = None"
| "firstClose (Close code # evs) = Some code"
| "firstClose (StdoutData chunk # evs) = firstClose evs"
| "firstClose (StderrData chunk # evs) = firstClose evs"
| "firstClose (Error message # evs) = firstClose evs"

text \<open>
  For stating the properties below: the parsed values of the lines of a list that are
  not blank and that \<open>JSON.parse\<close> accepts, in order; a line that is blank or that
  \<open>JSON.parse\<close> accepts; and a list of lines written out with a line feed after each.
\<close>

definition decodedLines :: "'e json_parse \<Rightarrow> jsstring list \<Rightarrow> 'e list" where
  "decodedLines parse ls =
     concat (map (\<lambda>l. case parse (trim l) of Inr parsed \<Rightarrow> [parsed] | Inl error \<Rightarrow> [])
                 (filter (\<lambda>l. trim l \<noteq> []) ls))"

definition decodable :: "'e json_parse \<Rightarrow> jsstring \<Rightarrow> bool" where
  "decodable parse l \<longleftrightarrow>
     trim l = [] \<or> (case parse (trim l) of Inr parsed \<Rightarrow> True | Inl error \<Rightarrow> False)"

definition joinLines :: "jsstring list \<Rightarrow> jsstring" where
  "joinLines ls = concat (map (\<lambda>l. l @ [0xA]) ls)"

subsection \<open>executeTask\<close>

text \<open>
  \<open>ClaudeOutputEvent\<close> of \<open>schemas.ts\<close>. A \<open>start\<close> event may carry a \<open>sessionId\<close>
  property beside the \<open>taskId\<close> of the schema (\<open>None\<close>: no such property); payloads of
  type \<open>unknown\<close> have the type \<open>'u\<close>.
\<close>

datatype 'u ClaudeOutputEvent =
    Start jsstring "jsstring option option"
  | Output jsstring
  | ToolUse jsstring 'u
  | ToolResult jsstring 'u
  | ErrorEvent jsstring "jsstring option"
  | Complete jsstring jsstring

record ClaudeExecuteOptions =
  prompt :: jsstring
  opt_sessionId :: "jsstring option"
  timeout :: "int option"
  workingDirectory :: "jsstring option"

record ClaudeResult =
  res_sessionId :: "jsstring option"
  res_output :: jsstring
  res_exitCode :: int
  res_success :: bool

text \<open>
  The callback of \<open>Stream.runForEach\<close>, on the three variables it updates: \<open>output\<close>,
  \<open>newSessionId\<close> and \<open>success\<close>.
\<close>

fun onEvent ::
  "jsstring option \<Rightarrow> jsstring \<times> jsstring option \<times> bool \<Rightarrow> 'u ClaudeOutputEvent
    \<Rightarrow> jsstring \<times> jsstring option \<times> bool" where
  "onEvent sid (output, newSessionId, success) (Start taskId extra) =
     (case extra of
        Some v \<Rightarrow> if \<not> truthy sid then (output, v, success)
                  else (output, newSessionId, success)
      | None \<Rightarrow> (output, newSessionId, success))"
| "onEvent sid (output, newSessionId, success) (Output content) =
     (output @ content @ [0xA], newSessionId, success)"
| "onEvent sid (output, newSessionId, success) (Complete taskId status) =
     (output, newSessionId, status = lit ''success'')"
| "onEvent sid (output, newSessionId, success) (ErrorEvent message code) =
     (output @ lit ''ERROR: '' @ message @ [0xA], newSessionId, success)"
| "onEvent sid (output, newSessionId, success) (ToolUse toolName toolInput) =
     (output, newSessionId, success)"
| "onEvent sid (output, newSessionId, success) (ToolResult toolName toolOutput) =
     (output, newSessionId, success)"

text \<open>
  \<open>executeTask\<close> from the point where the process has been spawned. Its inputs are the
  options, the configured default timeout, \<open>JSON.parse\<close> and the events of the child
  process. It consumes the stream of \<open>parseOutputStream\<close>; a stream that does not
  terminate runs into \<open>Effect.timeout\<close>. When the stream has ended, it registers a
  further \<open>close\<close> listener and waits for it to be called with the exit code; there
  is no timeout on that wait. The result is \<open>Some\<close> of what \<open>executeTask\<close> returns, or
  \<open>None\<close> when it never returns.
\<close>

definition executeTask ::
  "ClaudeExecuteOptions \<Rightarrow> int \<Rightarrow> ('u ClaudeOutputEvent) json_parse \<Rightarrow> proc_event list
    \<Rightarrow> (svc_error + ClaudeResult) option" where
  "executeTask options defaultTimeout parse evs =
     (let sid = opt_sessionId options;
          tmo = (case timeout options of
                   Some t \<Rightarrow> if t \<noteq> 0 then t else defaultTimeout
                 | None \<Rightarrow> defaultTimeout);
          outputStream = parseOutputStream parse evs
      in case foldl (onEvent sid) ([], sid, False) (fst outputStream) of
           (output, newSessionId, success) \<Rightarrow>
             (case snd outputStream of
                None \<Rightarrow>
                  Some (Inl (ClaudeTimeoutError
                               (if truthy sid then the sid else lit ''unknown'') tmo))
              | Some (StreamFail error) \<Rightarrow> Some (Inl error)
              | Some StreamEnd \<Rightarrow>
                  (case firstClose (afterTermination parse [] evs) of
                     None \<Rightarrow> None
                   | Some code \<Rightarrow>
                       (let exitCode = (case code of None \<Rightarrow> 0 | Some c \<Rightarrow> c)
                        in if \<not> success \<and> exitCode \<noteq> 0
                           then Some (Inl (ClaudeProcessError
                                             (lit ''Claude process failed'')
                                             (Some exitCode) (Some output)))
                           else Some (Inr \<lparr>res_sessionId = newSessionId,
                                            res_output = trim output,
                                            res_exitCode = exitCode,
                                            res_success = success\<rparr>)))))"

text \<open>
  For stating the result: the text that a list of events accumulates, and the status of
  the last \<open>complete\<close> event among them.
\<close>

fun outputOf :: "'u ClaudeOutputEvent \<Rightarrow> jsstring" where
  "outputOf (Output content) = content @ [0xA]"
| "outputOf (ErrorEvent message code) = lit ''ERROR: '' @ message @ [0xA]"
| "outputOf (Start taskId extra) = []"
| "outputOf (ToolUse toolName toolInput) = []"
| "outputOf (ToolResult toolName toolOutput) = []"
| "outputOf (Complete taskId status) = []"

definition accumulated :: "'u ClaudeOutputEvent list \<Rightarrow> jsstring" where
  "accumulated events = concat (map outputOf events)"

fun lastComplete :: "'u ClaudeOutputEvent list \<Rightarrow> jsstring option" where
  "lastComplete [] = None"
| "lastComplete (e # es) =
     (case lastComplete es of
        Some status \<Rightarrow> Some status
      | None \<Rightarrow> (case e of Complete taskId status \<Rightarrow> Some status | _ \<Rightarrow> None))"

subsection \<open>The release action of spawnClaudeProcess\<close>

text \<open>
  The handle is Node's \<open>ChildProcess\<close>, of which the finalizer reads \<open>pid\<close> and
  \<open>killed\<close>. \<open>process.kill(signal)\<close> sends the signal when the child is still running,
  and then sets \<open>killed\<close>; on a child that has exited it sends nothing and changes
  nothing. Nothing else sets \<open>killed\<close>: the property says that a signal was sent, not
  that the child has exited.
\<close>

record ChildProcess =
  pid :: "nat option"
  killed :: bool

datatype signal = SIGTERM | SIGKILL

definition kill :: "signal \<Rightarrow> bool \<Rightarrow> ChildProcess \<Rightarrow> ChildProcess" where
  "kill sig running process = (if running then process\<lparr>killed := True\<rparr> else process)"

text \<open>
  The finalizer, as the calls it makes: \<open>process.kill\<close> and \<open>Effect.sleep\<close> (in
  milliseconds). Its second argument says whether the child is still running when the
  finalizer starts.
\<close>

datatype release_call = Kill signal | Sleep nat

definition release :: "ChildProcess \<Rightarrow> bool \<Rightarrow> release_call list" where
  "release process running =
     (if (case pid process of None \<Rightarrow> False | Some n \<Rightarrow> n \<noteq> 0) \<and> \<not> killed process
      then (let process1 = kill SIGTERM running process
            in [Kill SIGTERM, Sleep 1000] @
               (if \<not> killed process1 then [Kill SIGKILL] else []))
      else [])"

section \<open>Sample inputs\<close>

text \<open>A stored session used to run the operations on a concrete table.\<close>

definition demo_session :: "unit SessionState" where
  "demo_session =
     \<lparr>sessionId = lit ''s1'', userId = lit ''alice'', createdAt = 1000,
      lastAccessedAt = 1500, expiresAt = 5000, claudeSessionId = None,
      taskCount = 2, metadata = None\<rparr>"

definition demo_updates :: "unit SessionUpdates" where
  "demo_updates =
     \<lparr>upd_sessionId = Some (lit ''other''), upd_userId = Some (lit ''mallory''),
      upd_createdAt = Some 1, upd_lastAccessedAt = Some 2, upd_expiresAt = None,
      upd_claudeSessionId = Some (Some (lit ''c9'')), upd_taskCount = Some 7,
      upd_metadata = None\<rparr>"

definition claude_id_update :: "unit SessionUpdates" where
  "claude_id_update =
     \<lparr>upd_sessionId = None, upd_userId = None, upd_createdAt = None,
      upd_lastAccessedAt = None, upd_expiresAt = None,
      upd_claudeSessionId = Some (Some (lit ''c9'')), upd_taskCount = None,
      upd_metadata = None\<rparr>"

definition demo_sessions :: "unit sessions" where
  "demo_sessions = Map.empty(lit ''s1'' \<mapsto> demo_session)"

text \<open>
  A stand-in for \<open>JSON.parse\<close> that agrees with it on the lines used below: the two
  protocol lines decode to their events, and no other line used below is JSON.
\<close>

definition sample_parse :: "unit ClaudeOutputEvent json_parse" where
  \<open>sample_parse s =
     (if s = lit ''{"type":"start","taskId":"t1"}'' then Inr (Start (lit ''t1'') None)
      else if s = lit ''{"type":"output","content":"hi"}'' then Inr (Output (lit ''hi''))
      else Inl (lit ''SyntaxError''))\<close>

section \<open>Properties of the session manager\<close>

text \<open>
  Claim C10. \<open>incrementTaskCount\<close> never fails. On an id that is not in the table it
  leaves the table as it is; on a stored id it replaces the record, in the one
  \<open>Ref.update\<close> it consists of, by the record with \<open>taskCount\<close> one higher (and
  \<open>lastAccessedAt\<close> refreshed), leaving every other record alone.
\<close>

theorem incrementTaskCount_effect:
  "(sessions sid = None \<longrightarrow>
      incrementTaskCount now sid sessions = (Inr (), sessions)) \<and>
   (sessions sid = Some session \<longrightarrow>
      incrementTaskCount now sid sessions =
        (Inr (), sessions(sid \<mapsto> session\<lparr>taskCount := taskCount session + 1,
                                           lastAccessedAt := now\<rparr>)) \<and>
      map_option taskCount (snd (incrementTaskCount now sid sessions) sid)
        = Some (taskCount session + 1) \<and>
      (\<forall>k. k \<noteq> sid \<longrightarrow> snd (incrementTaskCount now sid sessions) k = sessions k))"
  by (simp add: incrementTaskCount_def)

theorem incrementTaskCount_effect_witness:
  "demo_sessions (lit ''zz'') = None \<and>
   incrementTaskCount 2000 (lit ''zz'') demo_sessions = (Inr (), demo_sessions) \<and>
   demo_sessions (lit ''s1'') = Some demo_session \<and>
   map_option taskCount (snd (incrementTaskCount 2000 (lit ''s1'') demo_sessions) (lit ''s1''))
     = Some 3 \<and>
   lit ''zz'' \<noteq> lit ''s1'' \<and>
   snd (incrementTaskCount 2000 (lit ''s1'') demo_sessions) (lit ''zz'') = None"
proof -
  have absent: "demo_sessions (lit ''zz'') = None"
    by (simp add: demo_sessions_def lit_def)
  have present: "demo_sessions (lit ''s1'') = Some demo_session"
    by (simp add: demo_sessions_def)
  have distinct: "lit ''zz'' \<noteq> lit ''s1''"
    by (simp add: lit_def)
  have count: "taskCount demo_session = 2"
    by (simp add: demo_session_def)
  from incrementTaskCount_effect [where sessions = demo_sessions and sid = "lit ''zz''"
      and now = 2000] absent
  have a: "incrementTaskCount 2000 (lit ''zz'') demo_sessions = (Inr (), demo_sessions)"
    by simp
  from incrementTaskCount_effect [where sessions = demo_sessions and sid = "lit ''s1''"
      and session = demo_session and now = 2000] present
  have b: "map_option taskCount
             (snd (incrementTaskCount 2000 (lit ''s1'') demo_sessions) (lit ''s1''))
           = Some (taskCount demo_session + 1)"
    and c: "\<forall>k. k \<noteq> lit ''s1'' \<longrightarrow>
              snd (incrementTaskCount 2000 (lit ''s1'') demo_sessions) k = demo_sessions k"
    by simp_all
  from c distinct absent
  have d: "snd (incrementTaskCount 2000 (lit ''s1'') demo_sessions) (lit ''zz'') = None"
    by simp
  from a b d absent present distinct count show ?thesis by simp
qed

text \<open>
  Claim C3. \<open>getSession\<close> fails with \<open>SessionNotFound\<close> on an id that is not in the table.
  On a stored id whose \<open>expiresAt\<close> lies before the clock reading it fails with
  \<open>SessionExpired\<close> and removes the record, so that a second \<open>getSession\<close> on that id, at
  any later time, fails with \<open>SessionNotFound\<close>. Otherwise it stores the clock reading as
  \<open>lastAccessedAt\<close> and returns the session with that reading as \<open>updatedAt\<close>.
\<close>

theorem getSession_outcomes:
  "(sessions sid = None \<longrightarrow>
      getSession now sid sessions = (Inl (SessionNotFoundError sid), sessions)) \<and>
   (sessions sid = Some session \<and> now > expiresAt session \<longrightarrow>
      getSession now sid sessions =
        (Inl (SessionExpiredError sid (expiresAt session)), sessions(sid := None)) \<and>
      fst (getSession later sid (snd (getSession now sid sessions))) =
        Inl (SessionNotFoundError sid)) \<and>
   (sessions sid = Some session \<and> \<not> now > expiresAt session \<longrightarrow>
      getSession now sid sessions =
        (Inr \<lparr>sess_sessionId = sessionId session, sess_userId = userId session,
               sess_createdAt = createdAt session, sess_updatedAt = now,
               sess_expiresAt = expiresAt session,
               sess_claudeSessionId = claudeSessionId session,
               sess_metadata = metadata session\<rparr>,
         sessions(sid \<mapsto> session\<lparr>lastAccessedAt := now\<rparr>)))"
  by (simp add: getSession_def)

theorem getSession_outcomes_witness:
  "demo_sessions (lit ''zz'') = None \<and>
   getSession 2000 (lit ''zz'') demo_sessions =
     (Inl (SessionNotFoundError (lit ''zz'')), demo_sessions) \<and>
   demo_sessions (lit ''s1'') = Some demo_session \<and> 6000 > expiresAt demo_session \<and>
   fst (getSession 6000 (lit ''s1'') demo_sessions) =
     Inl (SessionExpiredError (lit ''s1'') 5000) \<and>
   fst (getSession 6001 (lit ''s1'') (snd (getSession 6000 (lit ''s1'') demo_sessions))) =
     Inl (SessionNotFoundError (lit ''s1'')) \<and>
   \<not> 2000 > expiresAt demo_session \<and>
   fst (getSession 2000 (lit ''s1'') demo_sessions) =
     Inr \<lparr>sess_sessionId = lit ''s1'', sess_userId = lit ''alice'', sess_createdAt = 1000,
           sess_updatedAt = 2000, sess_expiresAt = 5000, sess_claudeSessionId = None,
           sess_metadata = None\<rparr> \<and>
   map_option lastAccessedAt (snd (getSession 2000 (lit ''s1'') demo_sessions) (lit ''s1''))
     = Some 2000"
proof -
  have absent: "demo_sessions (lit ''zz'') = None"
    by (simp add: demo_sessions_def lit_def)
  have present: "demo_sessions (lit ''s1'') = Some demo_session"
    by (simp add: demo_sessions_def)
  have late: "6000 > expiresAt demo_session" and early: "\<not> 2000 > expiresAt demo_session"
    by (simp_all add: demo_session_def)
  note th = getSession_outcomes [where sessions = demo_sessions and session = demo_session]
  from th [where sid = "lit ''zz''" and now = 2000] absent
  have a: "getSession 2000 (lit ''zz'') demo_sessions =
      (Inl (SessionNotFoundError (lit ''zz'')), demo_sessions)"
    by simp
  from th [where sid = "lit ''s1''" and now = 6000 and later = 6001] present late
  have b: "getSession 6000 (lit ''s1'') demo_sessions =
      (Inl (SessionExpiredError (lit ''s1'') (expiresAt demo_session)),
       demo_sessions(lit ''s1'' := None))"
    and c: "fst (getSession 6001 (lit ''s1'')
        (snd (getSession 6000 (lit ''s1'') demo_sessions))) =
      Inl (SessionNotFoundError (lit ''s1''))"
    by blast+
  from th [where sid = "lit ''s1''" and now = 2000] present early
  have d: "getSession 2000 (lit ''s1'') demo_sessions =
      (Inr \<lparr>sess_sessionId = sessionId demo_session, sess_userId = userId demo_session,
             sess_createdAt = createdAt demo_session, sess_updatedAt = 2000,
             sess_expiresAt = expiresAt demo_session,
             sess_claudeSessionId = claudeSessionId demo_session,
             sess_metadata = metadata demo_session\<rparr>,
       demo_sessions(lit ''s1'' \<mapsto> demo_session\<lparr>lastAccessedAt := 2000\<rparr>))"
    by simp
  have e: "expiresAt demo_session = 5000" "sessionId demo_session = lit ''s1''"
    "userId demo_session = lit ''alice''" "createdAt demo_session = 1000"
    "claudeSessionId demo_session = None" "metadata demo_session = None"
    by (simp_all add: demo_session_def)
  from a b c d absent present late early show ?thesis by (simp add: e)
qed

text \<open>
  Claim C7. \<open>updateSession\<close> fails with \<open>SessionNotFound\<close> on an id that is not in the
  table. On a stored id it replaces the record: \<open>sessionId\<close>, \<open>userId\<close> and \<open>createdAt\<close>
  keep their stored values whatever the update supplies for them, \<open>lastAccessedAt\<close>
  becomes the clock reading, and each of the other properties takes the supplied value
  when there is one and keeps the stored one otherwise.
\<close>

theorem updateSession_effect:
  "(sessions sid = None \<longrightarrow>
      updateSession now sid updates sessions = (Inl (SessionNotFoundError sid), sessions)) \<and>
   (sessions sid = Some session \<longrightarrow>
      updateSession now sid updates sessions =
        (Inr (),
         sessions(sid \<mapsto>
           \<lparr>sessionId = sessionId session,
            userId = userId session,
            createdAt = createdAt session,
            lastAccessedAt = now,
            expiresAt = (case upd_expiresAt updates of
                           None \<Rightarrow> expiresAt session | Some v \<Rightarrow> v),
            claudeSessionId = (case upd_claudeSessionId updates of
                                 None \<Rightarrow> claudeSessionId session | Some v \<Rightarrow> v),
            taskCount = (case upd_taskCount updates of
                           None \<Rightarrow> taskCount session | Some v \<Rightarrow> v),
            metadata = (case upd_metadata updates of
                          None \<Rightarrow> metadata session | Some v \<Rightarrow> v)\<rparr>)))"
  by (simp add: updateSession_def spread_def supplied_def)

theorem updateSession_effect_witness:
  "demo_sessions (lit ''zz'') = None \<and>
   updateSession 2000 (lit ''zz'') demo_updates demo_sessions =
     (Inl (SessionNotFoundError (lit ''zz'')), demo_sessions) \<and>
   demo_sessions (lit ''s1'') = Some demo_session \<and>
   upd_sessionId demo_updates = Some (lit ''other'') \<and>
   updateSession 2000 (lit ''s1'') demo_updates demo_sessions =
     (Inr (),
      demo_sessions(lit ''s1'' \<mapsto>
        \<lparr>sessionId = lit ''s1'', userId = lit ''alice'', createdAt = 1000,
         lastAccessedAt = 2000, expiresAt = 5000, claudeSessionId = Some (lit ''c9''),
         taskCount = 7, metadata = None\<rparr>))"
proof -
  have absent: "demo_sessions (lit ''zz'') = None"
    by (simp add: demo_sessions_def lit_def)
  have present: "demo_sessions (lit ''s1'') = Some demo_session"
    by (simp add: demo_sessions_def)
  note th = updateSession_effect [where sessions = demo_sessions and session = demo_session
      and updates = demo_updates and now = 2000]
  from th [where sid = "lit ''zz''"] absent
  have a: "updateSession 2000 (lit ''zz'') demo_updates demo_sessions =
      (Inl (SessionNotFoundError (lit ''zz'')), demo_sessions)"
    by simp
  from th [where sid = "lit ''s1''"] present
  have b: "updateSession 2000 (lit ''s1'') demo_updates demo_sessions =
     (Inr (),
      demo_sessions(lit ''s1'' \<mapsto>
        \<lparr>sessionId = lit ''s1'', userId = lit ''alice'', createdAt = 1000,
         lastAccessedAt = 2000, expiresAt = 5000, claudeSessionId = Some (lit ''c9''),
         taskCount = 7, metadata = None\<rparr>))"
    by (simp add: demo_session_def demo_updates_def)
  have c: "upd_sessionId demo_updates = Some (lit ''other'')"
    by (simp add: demo_updates_def)
  from a b c absent present show ?thesis by simp
qed



section \<open>Concurrent operations on one session\<close>

text \<open>
  Operations of concurrently running fibers take effect on the \<open>Ref\<close> one
  \<open>Ref\<close> operation at a time, in some order. \<open>updateSession\<close> is its \<open>Ref.get\<close>
  followed by its \<open>Ref.update\<close>.
\<close>

lemma updateSession_two_steps:
  "updateSession now sid updates sessions =
     (case updateSession_get sid sessions of
        None \<Rightarrow> (Inl (SessionNotFoundError sid), sessions)
      | Some session \<Rightarrow> (Inr (), updateSession_put now sid updates session sessions))"
  by (simp add: updateSession_def updateSession_get_def updateSession_put_def
      split: option.splits)

text \<open>
  \<open>incrementTaskCount\<close> is a single \<open>Ref.update\<close>, so any number of concurrent
  increments are that many applications in some order, and each of them counts.
\<close>

lemma n_increments:
  "sessions sid = Some session \<Longrightarrow>
   map_option taskCount
     (foldl (\<lambda>s now. snd (incrementTaskCount now sid s)) sessions nows sid) =
     Some (taskCount session + int (length nows))"
proof (induction nows arbitrary: sessions session)
  case Nil
  then show ?case by simp
next
  case (Cons now nows)
  let ?s = "snd (incrementTaskCount now sid sessions)"
  have "?s sid = Some (session\<lparr>taskCount := taskCount session + 1, lastAccessedAt := now\<rparr>)"
    using Cons.prems by (simp add: incrementTaskCount_def)
  from Cons.IH [of ?s "session\<lparr>taskCount := taskCount session + 1, lastAccessedAt := now\<rparr>"]
    this
  show ?case by (auto simp add: add.assoc)
qed

text \<open>
  Claim C4, evaluated where it fails. An \<open>updateSession\<close> that does not supply
  \<open>taskCount\<close> runs concurrently with an \<open>incrementTaskCount\<close> on the same session.
  When the increment takes effect between the \<open>Ref.get\<close> and the \<open>Ref.update\<close> of
  \<open>updateSession\<close>, the record that \<open>updateSession\<close> stores is computed from the session
  read before the increment, and the increment is lost; both sequential orders of the
  two operations count it.
\<close>

theorem lost_update:
  assumes "updateSession_get sid sessions = Some session"
    and "upd_taskCount updates = None"
  shows "map_option taskCount
      (updateSession_put later sid updates session
         (snd (incrementTaskCount now sid sessions)) sid) = Some (taskCount session) \<and>
    map_option taskCount
      (snd (updateSession later sid updates
         (snd (incrementTaskCount now sid sessions))) sid) = Some (taskCount session + 1) \<and>
    map_option taskCount
      (snd (incrementTaskCount later sid
         (snd (updateSession now sid updates sessions))) sid) = Some (taskCount session + 1)"
  using assms
  by (simp add: updateSession_get_def updateSession_put_def updateSession_def
      incrementTaskCount_def spread_def supplied_def)

text \<open>
  The theorem of claim C4 on the sample session, whose \<open>taskCount\<close> is 2: it is still
  2 after the interleaved run and 3 after either sequential run.
\<close>

theorem lost_update_witness:
  "updateSession_get (lit ''s1'') demo_sessions = Some demo_session \<and>
   upd_taskCount claude_id_update = None \<and>
   taskCount demo_session = 2 \<and>
   map_option taskCount
     (updateSession_put 2001 (lit ''s1'') claude_id_update demo_session
        (snd (incrementTaskCount 2000 (lit ''s1'') demo_sessions)) (lit ''s1'')) = Some 2 \<and>
   map_option taskCount
     (snd (updateSession 2001 (lit ''s1'') claude_id_update
        (snd (incrementTaskCount 2000 (lit ''s1'') demo_sessions))) (lit ''s1'')) = Some 3 \<and>
   map_option taskCount
     (snd (incrementTaskCount 2001 (lit ''s1'')
        (snd (updateSession 2000 (lit ''s1'') claude_id_update demo_sessions))) (lit ''s1''))
     = Some 3"
proof -
  have h1: "updateSession_get (lit ''s1'') demo_sessions = Some demo_session"
    by (simp add: updateSession_get_def demo_sessions_def)
  have h2: "upd_taskCount claude_id_update = None"
    by (simp add: claude_id_update_def)
  have c: "taskCount demo_session = 2"
    by (simp add: demo_session_def)
  from lost_update [OF h1 h2, of 2001 2000, unfolded c] h1 h2 c
  show ?thesis by simp
qed

section \<open>Lines and chunks\<close>

text \<open>
  Splitting a text at line feeds can be done piecewise: the complete lines of the first
  part, then the split of what the first part left over followed by the second part.
\<close>

lemma split_newline_nonempty [simp]: "split_newline s \<noteq> []"
  by (induction s) (auto split: list.splits)

lemma split_newline_append:
  "split_newline (x @ y) =
     butlast (split_newline x) @ split_newline (last (split_newline x) @ y)"
proof (induction x)
  case Nil
  then show ?case by simp
next
  case (Cons c x)
  obtain l ls where x: "split_newline x = l # ls"
    by (cases "split_newline x") auto
  show ?case
  proof (cases "c = 0xA")
    case True
    with Cons show ?thesis by simp
  next
    case False
    show ?thesis
    proof (cases ls)
      case Nil
      with False x Cons show ?thesis by simp
    next
      case (Cons k ks)
      with False x Cons.IH show ?thesis by simp
    qed
  qed
qed

lemma split_newline_no_newline: "0xA \<notin> set s \<Longrightarrow> split_newline s = [s]"
  by (induction s) auto

lemma last_split_no_newline: "0xA \<notin> set (last (split_newline s))"
  by (induction s) (auto split: list.splits)

lemma split_newline_line:
  "0xA \<notin> set l \<Longrightarrow> split_newline (l @ 0xA # r) = l # split_newline r"
  by (induction l) auto

lemma split_newline_joinLines:
  "\<forall>l \<in> set ls. 0xA \<notin> set l \<Longrightarrow>
   split_newline (joinLines ls @ r) = ls @ split_newline r"
  by (induction ls) (auto simp add: joinLines_def split_newline_line)

lemma onData_eq:
  "onData parse buffer chunk =
     (last (split_newline (buffer @ toString chunk)),
      concat (map (processLine parse) (butlast (split_newline (buffer @ toString chunk)))))"
  by (simp add: onData_def pop_or_empty_def Let_def)

text \<open>
  The \<open>data\<close> listener therefore sees, over any run of chunks, the complete lines of the
  concatenated decoded text, and keeps what follows the last line feed.
\<close>

lemma listeners_data:
  "0xA \<notin> set buffer \<Longrightarrow>
   listeners parse buffer (map StdoutData chunks @ evs) =
     concat (map (processLine parse)
       (butlast (split_newline (buffer @ concat (map toString chunks))))) @
     listeners parse (last (split_newline (buffer @ concat (map toString chunks)))) evs"
proof (induction chunks arbitrary: buffer)
  case Nil
  then show ?case by (simp add: split_newline_no_newline)
next
  case (Cons c cs)
  let ?b = "last (split_newline (buffer @ toString c))"
  let ?T = "concat (map toString cs)"
  have nl: "0xA \<notin> set ?b" by (rule last_split_no_newline)
  have sp: "split_newline (buffer @ toString c @ ?T) =
      butlast (split_newline (buffer @ toString c)) @ split_newline (?b @ ?T)"
    using split_newline_append [of "buffer @ toString c" ?T] by simp
  have bl: "butlast (split_newline (buffer @ toString c @ ?T)) =
      butlast (split_newline (buffer @ toString c)) @ butlast (split_newline (?b @ ?T))"
    by (simp add: sp butlast_append)
  have la: "last (split_newline (buffer @ toString c @ ?T)) = last (split_newline (?b @ ?T))"
    by (simp add: sp)
  show ?case
    using Cons.IH [OF nl] by (simp add: onData_eq bl la)
qed

text \<open>
  Two runs of chunks whose decoded texts concatenate to the same text make the listeners
  issue the same calls.
\<close>

lemma listeners_chunking:
  "concat (map toString chunks) = concat (map toString chunks') \<Longrightarrow>
   listeners parse [] (map StdoutData chunks @ evs) =
   listeners parse [] (map StdoutData chunks' @ evs)"
  by (simp add: listeners_data)

text \<open>
  A buffer of ASCII bytes decodes byte by byte, so on ASCII output every way of cutting
  the same bytes into chunks makes the listeners issue the same calls.
\<close>

lemma utf8_decode_ascii:
  "\<forall>b \<in> set a. b < 0x80 \<Longrightarrow>
   utf8_decode utf8_start (a @ c) = map unat a @ utf8_decode utf8_start c"
proof (induction a)
  case Nil
  then show ?case by simp
next
  case (Cons b a)
  then have "unat b < 0x80" by (simp add: word_less_nat_alt)
  with Cons show ?case by (simp add: utf8_start_def utf8_lead_def)
qed

lemma toString_ascii:
  "\<forall>b \<in> set a. b < 0x80 \<Longrightarrow> toString (a @ c) = map ucast a @ toString c"
proof -
  assume a: "\<forall>b \<in> set a. b < 0x80"
  have "\<forall>b \<in> set a. utf16 (unat b) = [ucast b]"
  proof
    fix b assume "b \<in> set a"
    with a have "b < 0x80" by blast
    then have "unat b < 0x80" by (simp add: word_less_nat_alt)
    then have "unat b < 0x10000" by linarith
    then show "utf16 (unat b) = [ucast b]" by (simp add: utf16_def)
  qed
  then have "concat (map utf16 (map unat a)) = map ucast a"
    by (induction a) auto
  then show ?thesis
    using utf8_decode_ascii [OF a, of c] by (simp add: toString_def)
qed

lemma toString_ascii_chunks:
  "\<forall>c \<in> set chunks. \<forall>b \<in> set c. b < 0x80 \<Longrightarrow>
   concat (map toString chunks) = map ucast (concat chunks)"
proof (induction chunks)
  case Nil
  then show ?case by simp
next
  case (Cons c cs)
  then have "toString (c @ []) = map ucast c @ toString []"
    using toString_ascii [of c "[]"] by simp
  then have "toString c = map ucast c"
    by (simp add: toString_def utf8_start_def)
  with Cons show ?case by simp
qed

lemma listeners_chunking_ascii:
  assumes "\<forall>c \<in> set chunks. \<forall>b \<in> set c. b < 0x80"
    and "\<forall>c \<in> set chunks'. \<forall>b \<in> set c. b < 0x80"
    and "concat chunks = concat chunks'"
  shows "listeners parse [] (map StdoutData chunks @ evs) =
         listeners parse [] (map StdoutData chunks' @ evs)"
  using assms by (intro listeners_chunking) (simp add: toString_ascii_chunks)

text \<open>
  The listeners handle a list of events piece by piece, and the buffer carries over.
\<close>

lemma listeners_append:
  "listeners parse buffer (pre @ post) =
     listeners parse buffer pre @ listeners parse (bufferAfter parse buffer pre) post"
proof (induction pre arbitrary: buffer)
  case Nil
  then show ?case by simp
next
  case (Cons ev pre)
  then show ?case by (cases ev) (auto split: prod.splits)
qed

lemma bufferAfter_data:
  "0xA \<notin> set buffer \<Longrightarrow>
   bufferAfter parse buffer (map StdoutData chunks) =
     last (split_newline (buffer @ concat (map toString chunks)))"
proof (induction chunks arbitrary: buffer)
  case Nil
  then show ?case by (simp add: split_newline_no_newline)
next
  case (Cons c cs)
  let ?b = "last (split_newline (buffer @ toString c))"
  have nl: "0xA \<notin> set ?b" by (rule last_split_no_newline)
  have "split_newline (buffer @ toString c @ concat (map toString cs)) =
      butlast (split_newline (buffer @ toString c)) @
      split_newline (?b @ concat (map toString cs))"
    using split_newline_append [of "buffer @ toString c" "concat (map toString cs)"] by simp
  then have "last (split_newline (buffer @ toString c @ concat (map toString cs))) =
      last (split_newline (?b @ concat (map toString cs)))"
    by simp
  with Cons.IH [OF nl] show ?case by (simp add: onData_eq)
qed

text \<open>
  Calls on \<open>emit\<close> that follow a terminated stream change nothing.
\<close>

lemma Stream_async_append:
  "Stream_async (emits @ rest) =
     (case snd (Stream_async emits) of
        None \<Rightarrow> (fst (Stream_async emits) @ fst (Stream_async rest),
                   snd (Stream_async rest))
      | Some exit \<Rightarrow> Stream_async emits)"
proof (induction emits)
  case Nil
  then show ?case by simp
next
  case (Cons e emits)
  then show ?case by (cases e) (auto split: prod.splits option.splits)
qed

lemma Stream_async_open:
  "\<not> list_ex terminal emits \<Longrightarrow>
   snd (Stream_async (emits @ rest)) = snd (Stream_async rest)"
proof (induction emits)
  case Nil
  then show ?case by simp
next
  case (Cons e emits)
  then show ?case by (cases e) (auto split: prod.splits)
qed

lemma Stream_async_failed:
  "list_ex terminal emits \<Longrightarrow> End \<notin> set emits \<Longrightarrow>
   snd (Stream_async (emits @ rest)) \<noteq> Some StreamEnd"
proof (induction emits)
  case Nil
  then show ?case by simp
next
  case (Cons e emits)
  then show ?case by (cases e) (auto split: prod.splits)
qed

lemma Stream_async_singles:
  "Stream_async (map Single as @ emits) =
     (as @ fst (Stream_async emits), snd (Stream_async emits))"
  by (induction as) (auto split: prod.splits)

lemma processLine_decodable:
  "decodable parse l \<Longrightarrow> processLine parse l = map Single (decodedLines parse [l])"
  by (auto simp add: decodable_def processLine_def decodedLines_def split: sum.splits)

lemma decodedLines_Cons:
  "decodedLines parse (l # ls) = decodedLines parse [l] @ decodedLines parse ls"
  by (simp add: decodedLines_def)

lemma processLines_decodable:
  "\<forall>l \<in> set ls. decodable parse l \<Longrightarrow>
   concat (map (processLine parse) ls) = map Single (decodedLines parse ls)"
proof (induction ls)
  case Nil
  then show ?case by (simp add: decodedLines_def)
next
  case (Cons l ls)
  then show ?case
    using decodedLines_Cons [of parse l ls] by (simp add: processLine_decodable)
qed

section \<open>Properties of parseOutputStream\<close>

text \<open>The definitions that running the decoder on a concrete input unfolds.\<close>

lemmas run_defs = parseOutputStream_def onData_def onClose_def onError_def processLine_def
  pop_or_empty_def toString_def utf8_start_def utf8_lead_def utf16_def bytes_def lit_def
  trim_def isWhiteSpace_def sample_parse_def Let_def

text \<open>
  Claim C1, as amended. Let the decoded text of the chunks consist of complete lines
  \<open>good\<close>, each blank or accepted by \<open>JSON.parse\<close>, then a complete line \<open>bad\<close> that is
  not blank and that \<open>JSON.parse\<close> rejects, then any text \<open>rest\<close>. The \<open>data\<close> listener
  calls \<open>emit.single\<close> for the lines of \<open>good\<close>, calls \<open>emit.fail\<close> once for \<open>bad\<close> with the
  trimmed line as \<open>rawOutput\<close>, and goes on to process the complete lines of \<open>rest\<close>. The
  stream that \<open>parseOutputStream\<close> returns yields the events of \<open>good\<close> and then fails
  with that decode failure, whatever follows: no event of a later line is part of it.
\<close>

theorem malformed_line_ends_stream:
  assumes input: "concat (map toString chunks) = joinLines good @ bad @ [0xA] @ rest"
    and good: "\<forall>l \<in> set good. 0xA \<notin> set l \<and> decodable parse l"
    and bad: "0xA \<notin> set bad \<and> trim bad \<noteq> [] \<and> parse (trim bad) = Inl error"
  shows "listeners parse [] (map StdoutData chunks) =
      map Single (decodedLines parse good) @
      [Fail (ClaudeOutputParseError (lit ''Failed to parse Claude output: '' @ error)
               (trim bad))] @
      concat (map (processLine parse) (butlast (split_newline rest))) \<and>
    parseOutputStream parse (map StdoutData chunks @ evs) =
      (decodedLines parse good,
       Some (StreamFail (ClaudeOutputParseError
               (lit ''Failed to parse Claude output: '' @ error) (trim bad))))"
proof -
  let ?f = "Fail (ClaudeOutputParseError (lit ''Failed to parse Claude output: '' @ error)
               (trim bad))"
  have nl: "\<forall>l \<in> set (good @ [bad]). 0xA \<notin> set l"
    using good bad by auto
  have jl: "concat (map toString chunks) = joinLines (good @ [bad]) @ rest"
    by (simp add: input joinLines_def)
  have sp: "split_newline (concat (map toString chunks)) =
      (good @ [bad]) @ split_newline rest"
    unfolding jl by (rule split_newline_joinLines [OF nl])
  have bl: "butlast (split_newline (concat (map toString chunks))) =
      good @ [bad] @ butlast (split_newline rest)"
    by (simp add: sp butlast_append)
  have pg: "concat (map (processLine parse) good) = map Single (decodedLines parse good)"
    using good by (simp add: processLines_decodable)
  have pb: "processLine parse bad = [?f]"
    using bad by (simp add: processLine_def)
  have run: "\<And>evs. listeners parse [] (map StdoutData chunks @ evs) =
      map Single (decodedLines parse good) @ ?f #
      concat (map (processLine parse) (butlast (split_newline rest))) @
      listeners parse (last (split_newline (concat (map toString chunks)))) evs"
    using listeners_data [of "[]" parse chunks] by (simp add: bl pg pb)
  have a: "listeners parse [] (map StdoutData chunks) =
      map Single (decodedLines parse good) @ [?f] @
      concat (map (processLine parse) (butlast (split_newline rest)))"
    using run [of "[]"] by simp
  have b: "parseOutputStream parse (map StdoutData chunks @ evs) =
      (decodedLines parse good, Some (StreamFail (ClaudeOutputParseError
               (lit ''Failed to parse Claude output: '' @ error) (trim bad))))"
    unfolding parseOutputStream_def run [of evs]
    by (simp add: Stream_async_singles)
  from a b show ?thesis by blast
qed

text \<open>
  The theorem of claim C1 on two chunks: a \<open>start\<close> line, the line \<open>junk\<close> cut by the
  chunk boundary, and an \<open>output\<close> line.
\<close>

theorem malformed_line_ends_stream_witness:
  \<open>concat (map toString
      [bytes ''{"type":"start","taskId":"t1"}'' @ [0xA] @ bytes ''ju'',
       bytes ''nk'' @ [0xA] @ bytes ''{"type":"output","content":"hi"}'' @ [0xA]]) =
     joinLines [lit ''{"type":"start","taskId":"t1"}''] @ lit ''junk'' @ [0xA] @
       (lit ''{"type":"output","content":"hi"}'' @ [0xA]) \<and>
   (0xA \<notin> set (lit ''{"type":"start","taskId":"t1"}'') \<and>
    decodable sample_parse (lit ''{"type":"start","taskId":"t1"}'')) \<and>
   (0xA \<notin> set (lit ''junk'') \<and> trim (lit ''junk'') \<noteq> [] \<and>
    sample_parse (trim (lit ''junk'')) = Inl (lit ''SyntaxError'')) \<and>
   listeners sample_parse []
     (map StdoutData
       [bytes ''{"type":"start","taskId":"t1"}'' @ [0xA] @ bytes ''ju'',
        bytes ''nk'' @ [0xA] @ bytes ''{"type":"output","content":"hi"}'' @ [0xA]]) =
     [Single (Start (lit ''t1'') None),
      Fail (ClaudeOutputParseError (lit ''Failed to parse Claude output: SyntaxError'')
              (lit ''junk'')),
      Single (Output (lit ''hi''))] \<and>
   parseOutputStream sample_parse
     (map StdoutData
       [bytes ''{"type":"start","taskId":"t1"}'' @ [0xA] @ bytes ''ju'',
        bytes ''nk'' @ [0xA] @ bytes ''{"type":"output","content":"hi"}'' @ [0xA]]
      @ [Close (Some 0)]) =
     ([Start (lit ''t1'') None],
      Some (StreamFail (ClaudeOutputParseError
              (lit ''Failed to parse Claude output: SyntaxError'') (lit ''junk''))))\<close>
proof -
  let ?chunks = \<open>[bytes ''{"type":"start","taskId":"t1"}'' @ [0xA] @ bytes ''ju'',
       bytes ''nk'' @ [0xA] @ bytes ''{"type":"output","content":"hi"}'' @ [0xA]]\<close>
  let ?good = \<open>[lit ''{"type":"start","taskId":"t1"}'']\<close>
  let ?rest = \<open>lit ''{"type":"output","content":"hi"}'' @ [0xA]\<close>
  have h1: "concat (map toString ?chunks) = joinLines ?good @ lit ''junk'' @ [0xA] @ ?rest"
    by (simp add: toString_def utf8_start_def utf8_lead_def utf16_def bytes_def lit_def
        joinLines_def)
  have h2: "\<forall>l \<in> set ?good. 0xA \<notin> set l \<and> decodable sample_parse l"
    by (simp add: decodable_def sample_parse_def lit_def trim_def isWhiteSpace_def)
  have h3: "0xA \<notin> set (lit ''junk'') \<and> trim (lit ''junk'') \<noteq> [] \<and>
      sample_parse (trim (lit ''junk'')) = Inl (lit ''SyntaxError'')"
    by (simp add: sample_parse_def lit_def trim_def isWhiteSpace_def)
  have d: "decodedLines sample_parse ?good = [Start (lit ''t1'') None]"
    by (simp add: decodedLines_def sample_parse_def lit_def trim_def isWhiteSpace_def)
  have r: "concat (map (processLine sample_parse) (butlast (split_newline ?rest))) =
      [Single (Output (lit ''hi''))]"
    by (simp add: processLine_def sample_parse_def lit_def trim_def isWhiteSpace_def)
  have m: "lit ''Failed to parse Claude output: '' @ lit ''SyntaxError'' =
      lit ''Failed to parse Claude output: SyntaxError''"
    by (simp add: lit_def)
  have t: "trim (lit ''junk'') = lit ''junk''"
    by (simp add: lit_def trim_def isWhiteSpace_def)
  note th = malformed_line_ends_stream [OF h1 h2 h3, of "[Close (Some 0)]",
      unfolded d r m t]
  from th have a: "listeners sample_parse [] (map StdoutData ?chunks) =
     [Single (Start (lit ''t1'') None),
      Fail (ClaudeOutputParseError (lit ''Failed to parse Claude output: SyntaxError'')
              (lit ''junk'')),
      Single (Output (lit ''hi''))]"
    by simp
  from th have b: "parseOutputStream sample_parse
      (map StdoutData ?chunks @ [Close (Some 0)]) =
     ([Start (lit ''t1'') None],
      Some (StreamFail (ClaudeOutputParseError
              (lit ''Failed to parse Claude output: SyntaxError'') (lit ''junk''))))"
    by blast
  from h2 have g: \<open>0xA \<notin> set (lit ''{"type":"start","taskId":"t1"}'') \<and>
      decodable sample_parse (lit ''{"type":"start","taskId":"t1"}'')\<close>
    by simp
  from h1 g h3 a b show ?thesis by blast
qed

text \<open>
  Claim C1 as stated fails: the line after \<open>junk\<close> is valid, and its event is not part
  of the stream, which has failed.
\<close>

theorem malformed_line_ends_stream_counterexample:
  \<open>sample_parse (lit ''{"type":"output","content":"hi"}'') = Inr (Output (lit ''hi'')) \<and>
   parseOutputStream sample_parse
     [StdoutData (bytes ''junk'' @ [0xA] @ bytes ''{"type":"output","content":"hi"}'' @ [0xA]),
      Close (Some 0)] =
     ([], Some (StreamFail (ClaudeOutputParseError
                  (lit ''Failed to parse Claude output: SyntaxError'') (lit ''junk''))))\<close>
  by (simp add: parseOutputStream_def onData_def onClose_def processLine_def
      pop_or_empty_def toString_def utf8_start_def utf8_lead_def utf16_def bytes_def lit_def
      trim_def isWhiteSpace_def sample_parse_def Let_def)

text \<open>
  Claim C9, as amended. Let the process close when the buffer holds a non-empty
  \<open>leftover\<close>, after any events \<open>pre\<close>. The \<open>close\<close> listener trims the leftover and
  gives it to \<open>JSON.parse\<close>: if it is accepted it calls \<open>emit.single\<close> and then
  \<open>emit.end\<close>, if it is rejected it only calls \<open>emit.end\<close>, and it never calls
  \<open>emit.fail\<close>. When the stream is still open after \<open>pre\<close>, the event of the leftover
  is therefore delivered before the stream ends, or the leftover is dropped, and the
  stream ends without error. When the stream has already failed, on a malformed line or
  on an \<open>error\<close> event of the process, the close changes nothing: the event of the
  leftover is not delivered and the stream has ended with that failure. (A leftover of
  white space only is not handed to \<open>JSON.parse\<close>; as \<open>JSON.parse\<close> rejects the empty
  text, which is the last hypothesis, that cannot be told apart from a rejected
  attempt.)
\<close>

theorem close_with_leftover:
  assumes "bufferAfter parse [] pre = leftover"
    and "leftover \<noteq> []"
    and "parse [] = Inl e0"
  shows "listeners parse [] (pre @ [Close code]) =
      listeners parse [] pre @
      (case parse (trim leftover) of
         Inr parsed \<Rightarrow> [Single parsed, End]
       | Inl error \<Rightarrow> [End]) \<and>
    parseOutputStream parse (pre @ [Close code]) =
      (case snd (parseOutputStream parse pre) of
         None \<Rightarrow>
           (fst (parseOutputStream parse pre) @
              (case parse (trim leftover) of Inr parsed \<Rightarrow> [parsed] | Inl error \<Rightarrow> []),
            Some StreamEnd)
       | Some exit \<Rightarrow> parseOutputStream parse pre)"
proof -
  have cl: "onClose parse leftover =
      (case parse (trim leftover) of Inr parsed \<Rightarrow> [Single parsed, End] | Inl error \<Rightarrow> [End])"
    using assms(3) by (simp add: onClose_def)
  have a: "listeners parse [] (pre @ [Close code]) =
      listeners parse [] pre @
      (case parse (trim leftover) of
         Inr parsed \<Rightarrow> [Single parsed, End]
       | Inl error \<Rightarrow> [End])"
    using listeners_append [of parse "[]" pre "[Close code]"] assms(1) by (simp add: cl)
  have b: "parseOutputStream parse (pre @ [Close code]) =
      (case snd (parseOutputStream parse pre) of
         None \<Rightarrow>
           (fst (parseOutputStream parse pre) @
              (case parse (trim leftover) of Inr parsed \<Rightarrow> [parsed] | Inl error \<Rightarrow> []),
            Some StreamEnd)
       | Some exit \<Rightarrow> parseOutputStream parse pre)"
    unfolding parseOutputStream_def a Stream_async_append
    by (simp split: option.splits sum.splits)
  from a b show ?thesis by blast
qed

text \<open>
  The theorem of claim C9 on the three chunks of the specification's example with the
  last line feed left out, on a leftover that is cut short, and on a close that follows
  an \<open>error\<close> event of the process.
\<close>

theorem close_with_leftover_witness:
  \<open>bufferAfter sample_parse []
     [StdoutData (bytes ''{"type":"start"''),
      StdoutData (bytes '',"taskId":"t1"}'' @ [0xA] @ bytes ''{"type":"output"''),
      StdoutData (bytes '',"content":"hi"}'')] =
     lit ''{"type":"output","content":"hi"}'' \<and>
   lit ''{"type":"output","content":"hi"}'' \<noteq> [] \<and>
   sample_parse [] = Inl (lit ''SyntaxError'') \<and>
   parseOutputStream sample_parse
     ([StdoutData (bytes ''{"type":"start"''),
       StdoutData (bytes '',"taskId":"t1"}'' @ [0xA] @ bytes ''{"type":"output"''),
       StdoutData (bytes '',"content":"hi"}'')] @ [Close (Some 0)]) =
     ([Start (lit ''t1'') None, Output (lit ''hi'')], Some StreamEnd) \<and>
   bufferAfter sample_parse [] [StdoutData (bytes ''{"type":"out'')] = lit ''{"type":"out'' \<and>
   lit ''{"type":"out'' \<noteq> [] \<and>
   parseOutputStream sample_parse ([StdoutData (bytes ''{"type":"out'')] @ [Close None]) =
     ([], Some StreamEnd) \<and>
   bufferAfter sample_parse []
     [StdoutData (bytes ''{"type":"output","content":"hi"}''), Error (lit ''EPIPE'')] =
     lit ''{"type":"output","content":"hi"}'' \<and>
   parseOutputStream sample_parse
     ([StdoutData (bytes ''{"type":"output","content":"hi"}''), Error (lit ''EPIPE'')] @
      [Close (Some 1)]) =
     ([], Some (StreamFail (ClaudeProcessError (lit ''Claude process error: EPIPE'')
                  None None)))\<close>
proof -
  let ?pre1 = \<open>[StdoutData (bytes ''{"type":"start"''),
      StdoutData (bytes '',"taskId":"t1"}'' @ [0xA] @ bytes ''{"type":"output"''),
      StdoutData (bytes '',"content":"hi"}'')]\<close>
  let ?pre2 = \<open>[StdoutData (bytes ''{"type":"out'')]\<close>
  let ?pre3 = \<open>[StdoutData (bytes ''{"type":"output","content":"hi"}''),
      Error (lit ''EPIPE'')]\<close>
  let ?left = \<open>lit ''{"type":"output","content":"hi"}''\<close>
  let ?cut = \<open>lit ''{"type":"out''\<close>
  have b1: "bufferAfter sample_parse [] ?pre1 = ?left" by (simp add: run_defs)
  have b2: "bufferAfter sample_parse [] ?pre2 = ?cut" by (simp add: run_defs)
  have b3: "bufferAfter sample_parse [] ?pre3 = ?left" by (simp add: run_defs)
  have n1: "?left \<noteq> []" by (simp add: lit_def)
  have n2: "?cut \<noteq> []" by (simp add: lit_def)
  have e: "sample_parse [] = Inl (lit ''SyntaxError'')"
    by (simp add: sample_parse_def lit_def)
  have p1: "parseOutputStream sample_parse ?pre1 = ([Start (lit ''t1'') None], None)"
    by (simp add: run_defs)
  have p2: "parseOutputStream sample_parse ?pre2 = ([], None)"
    by (simp add: run_defs)
  have p3: "parseOutputStream sample_parse ?pre3 =
      ([], Some (StreamFail (ClaudeProcessError (lit ''Claude process error: EPIPE'')
                  None None)))"
    by (simp add: run_defs)
  have q1: "sample_parse (trim ?left) = Inr (Output (lit ''hi''))"
    by (simp add: sample_parse_def lit_def trim_def isWhiteSpace_def)
  have q2: "sample_parse (trim ?cut) = Inl (lit ''SyntaxError'')"
    by (simp add: sample_parse_def lit_def trim_def isWhiteSpace_def)
  from close_with_leftover [OF b1 n1 e, of "Some 0", THEN conjunct2]
  have r1: "parseOutputStream sample_parse (?pre1 @ [Close (Some 0)]) =
      ([Start (lit ''t1'') None, Output (lit ''hi'')], Some StreamEnd)"
    unfolding p1 q1 by simp
  from close_with_leftover [OF b2 n2 e, of None, THEN conjunct2]
  have r2: "parseOutputStream sample_parse (?pre2 @ [Close None]) = ([], Some StreamEnd)"
    unfolding p2 q2 by simp
  from close_with_leftover [OF b3 n1 e, of "Some 1", THEN conjunct2]
  have r3: "parseOutputStream sample_parse (?pre3 @ [Close (Some 1)]) =
      ([], Some (StreamFail (ClaudeProcessError (lit ''Claude process error: EPIPE'')
                  None None)))"
    unfolding p3 by simp
  from b1 n1 e r1 b2 n2 r2 b3 r3 show ?thesis by blast
qed

text \<open>
  Claim C9 as stated fails: the line \<open>junk\<close> has failed the stream before the process
  closes with a valid leftover, whose event is not delivered; the stream has ended with
  the decode failure.
\<close>

theorem close_with_leftover_counterexample:
  \<open>bufferAfter sample_parse []
     [StdoutData (bytes ''junk'' @ [0xA] @ bytes ''{"type":"output","content":"hi"}'')] =
     lit ''{"type":"output","content":"hi"}'' \<and>
   sample_parse (lit ''{"type":"output","content":"hi"}'') = Inr (Output (lit ''hi'')) \<and>
   parseOutputStream sample_parse
     [StdoutData (bytes ''junk'' @ [0xA] @ bytes ''{"type":"output","content":"hi"}''),
      Close (Some 0)] =
     ([], Some (StreamFail (ClaudeOutputParseError
                  (lit ''Failed to parse Claude output: SyntaxError'') (lit ''junk''))))\<close>
  by (simp add: run_defs)

text \<open>
  The three chunks of the specification's example, followed by the close of the
  process: two events, \<open>start\<close> and then \<open>output\<close>.
\<close>

lemma spec_example_chunks:
  \<open>parseOutputStream sample_parse
     [StdoutData (bytes ''{"type":"start"''),
      StdoutData (bytes '',"taskId":"t1"}'' @ [0xA] @ bytes ''{"type":"output"''),
      StdoutData (bytes '',"content":"hi"}'' @ [0xA]),
      Close (Some 0)] =
     ([Start (lit ''t1'') None, Output (lit ''hi'')], Some StreamEnd)\<close>
  by (simp add: parseOutputStream_def onData_def onClose_def processLine_def
      pop_or_empty_def toString_def utf8_start_def utf8_lead_def utf16_def bytes_def lit_def
      trim_def isWhiteSpace_def sample_parse_def Let_def)

text \<open>
  Claim C6, evaluated where it fails. The line
  \<open>{"type":"output","content":"\<dots>"}\<close> carries the character U+00E9, two bytes in
  UTF-8. Delivered in one chunk, \<open>JSON.parse\<close> is given the line with U+00E9; with the
  chunk boundary between the two bytes, each chunk is decoded on its own and
  \<open>JSON.parse\<close> is given the line with two U+FFFD instead.
\<close>

theorem chunk_boundary_in_character:
  \<open>listeners parse []
     [StdoutData (bytes ''{"type":"output","content":"'' @ [0xC3, 0xA9] @ bytes ''"}'' @ [0xA])] =
     processLine parse (lit ''{"type":"output","content":"'' @ [0xE9] @ lit ''"}'') \<and>
   listeners parse []
     [StdoutData (bytes ''{"type":"output","content":"'' @ [0xC3]),
      StdoutData ([0xA9] @ bytes ''"}'' @ [0xA])] =
     processLine parse (lit ''{"type":"output","content":"'' @ [0xFFFD, 0xFFFD] @ lit ''"}'')\<close>
  by (simp add: onData_def pop_or_empty_def toString_def utf8_start_def utf8_lead_def
      utf16_def bytes_def lit_def Let_def)

section \<open>Properties of executeTask\<close>

text \<open>
  The three variables after the loop over the events: \<open>output\<close> has grown by the
  accumulated text, and \<open>success\<close> is decided by the last \<open>complete\<close> event, if there
  is one.
\<close>

lemma foldl_onEvent:
  "foldl (onEvent sid) (out, ns, succ) events =
     (out @ accumulated events,
      fst (snd (foldl (onEvent sid) (out, ns, succ) events)),
      (case lastComplete events of None \<Rightarrow> succ | Some status \<Rightarrow> status = lit ''success''))"
proof (induction events arbitrary: out ns succ)
  case Nil
  then show ?case by (simp add: accumulated_def)
next
  case (Cons e es)
  obtain out' ns' succ' where step: "onEvent sid (out, ns, succ) e = (out', ns', succ')"
    by (cases "onEvent sid (out, ns, succ) e") auto
  have o: "out' = out @ outputOf e"
    using step by (cases e) (auto split: option.splits if_splits)
  have s: "succ' = (case e of Complete taskId status \<Rightarrow> status = lit ''success'' | _ \<Rightarrow> succ)"
    using step by (cases e) (auto split: option.splits if_splits)
  show ?case
    using Cons.IH [of out' ns' succ']
    by (simp add: step o s accumulated_def split: option.splits ClaudeOutputEvent.splits)
qed

text \<open>
  A stream of \<open>parseOutputStream\<close> ends, rather than fails, only in the \<open>close\<close>
  listener. As the process emits \<open>close\<close> once, no \<open>close\<close> event follows the one that
  ended the stream.
\<close>

lemma processLine_no_End: "End \<notin> set (processLine parse l)"
  by (simp add: processLine_def Let_def split: sum.splits)

lemma onData_no_End: "End \<notin> set (snd (onData parse buffer chunk))"
  by (simp add: onData_eq processLine_no_End)

lemma onClose_terminal: "list_ex terminal (onClose parse buffer)"
  by (simp add: onClose_def split: sum.splits)

lemma firstClose_none: "\<not> list_ex isClose evs \<Longrightarrow> firstClose evs = None"
proof (induction evs)
  case Nil
  then show ?case by simp
next
  case (Cons ev evs)
  then show ?case by (cases ev) auto
qed

lemma await_never_resumes:
  "length (filter isClose evs) \<le> 1 \<Longrightarrow>
   snd (Stream_async (listeners parse buffer evs)) = Some StreamEnd \<Longrightarrow>
   firstClose (afterTermination parse buffer evs) = None"
proof (induction evs arbitrary: buffer)
  case Nil
  then show ?case by simp
next
  case (Cons ev evs)
  show ?case
  proof (cases ev)
    case (StdoutData chunk)
    obtain buffer' emits where od: "onData parse buffer chunk = (buffer', emits)"
      by (cases "onData parse buffer chunk") auto
    have ne: "End \<notin> set emits"
      using onData_no_End [of parse buffer chunk] od by simp
    show ?thesis
    proof (cases "list_ex terminal emits")
      case True
      from Stream_async_failed [OF True ne] Cons.prems(2) StdoutData od
      show ?thesis by simp
    next
      case False
      from Stream_async_open [OF False] Cons.prems StdoutData od
      have "snd (Stream_async (listeners parse buffer' evs)) = Some StreamEnd"
        and "length (filter isClose evs) \<le> 1"
        by simp_all
      from Cons.IH [OF this(2) this(1)] False StdoutData od show ?thesis by simp
    qed
  next
    case (StderrData chunk)
    with Cons show ?thesis by simp
  next
    case (Close code)
    with Cons.prems(1) have "filter isClose evs = []" by simp
    then have "\<not> list_ex isClose evs"
      by (simp add: list_ex_iff filter_empty_conv)
    then have "firstClose evs = None" by (rule firstClose_none)
    with Close show ?thesis by (simp add: onClose_terminal)
  next
    case (Error message)
    with Cons.prems(2) show ?thesis by (simp add: onError_def)
  qed
qed

text \<open>
  Claim C2, evaluated where it fails. Whenever the stream has ended, the \<open>close\<close>
  listener with which \<open>executeTask\<close> awaits the exit code has been registered after
  the only \<open>close\<close> event of the process, and is never called: \<open>executeTask\<close> does not
  return, neither with the accumulated output nor with a \<open>ClaudeProcessError\<close>.
\<close>

theorem executeTask_never_returns:
  assumes "length (filter isClose evs) \<le> 1"
    and "snd (parseOutputStream parse evs) = Some StreamEnd"
  shows "executeTask options defaultTimeout parse evs = None"
proof -
  from assms(2) have "snd (Stream_async (listeners parse [] evs)) = Some StreamEnd"
    by (simp add: parseOutputStream_def)
  from await_never_resumes [OF assms(1) this]
  have "firstClose (afterTermination parse [] evs) = None" .
  with assms(2) show ?thesis
    by (simp add: executeTask_def Let_def split: prod.splits)
qed

text \<open>
  The theorem of claim C2 on a process that writes one \<open>output\<close> line and exits with
  code 0.
\<close>

theorem executeTask_never_returns_witness:
  \<open>length (filter isClose
      [StdoutData (bytes ''{"type":"output","content":"hi"}'' @ [0xA]), Close (Some 0)]) \<le> 1 \<and>
   parseOutputStream sample_parse
      [StdoutData (bytes ''{"type":"output","content":"hi"}'' @ [0xA]), Close (Some 0)] =
     ([Output (lit ''hi'')], Some StreamEnd) \<and>
   executeTask \<lparr>prompt = lit ''echo hi'', opt_sessionId = None, timeout = None,
                 workingDirectory = None\<rparr> 300000 sample_parse
      [StdoutData (bytes ''{"type":"output","content":"hi"}'' @ [0xA]), Close (Some 0)] =
     None\<close>
proof -
  let ?evs = \<open>[StdoutData (bytes ''{"type":"output","content":"hi"}'' @ [0xA]),
      Close (Some 0)]\<close>
  have h1: "length (filter isClose ?evs) \<le> 1" by simp
  have p: "parseOutputStream sample_parse ?evs = ([Output (lit ''hi'')], Some StreamEnd)"
    by (simp add: run_defs)
  then have h2: "snd (parseOutputStream sample_parse ?evs) = Some StreamEnd" by simp
  from executeTask_never_returns [OF h1 h2] h1 p show ?thesis by blast
qed

text \<open>
  What the lines after the wait would compute if a \<open>close\<close> event did reach the
  listener: the status of the last \<open>complete\<close> event and the exit code decide between
  the \<open>ClaudeProcessError\<close> and the result with the trimmed output.
\<close>

lemma executeTask_if_resumed:
  assumes "parseOutputStream parse evs = (events, Some StreamEnd)"
    and "firstClose (afterTermination parse [] evs) = Some code"
  shows "executeTask options defaultTimeout parse evs =
     Some (if lastComplete events \<noteq> Some (lit ''success'') \<and>
              (case code of None \<Rightarrow> 0 | Some c \<Rightarrow> c) \<noteq> 0
           then Inl (ClaudeProcessError (lit ''Claude process failed'')
                       (Some (case code of None \<Rightarrow> 0 | Some c \<Rightarrow> c))
                       (Some (accumulated events)))
           else Inr \<lparr>res_sessionId =
                        fst (snd (foldl (onEvent (opt_sessionId options))
                                    ([], opt_sessionId options, False) events)),
                      res_output = trim (accumulated events),
                      res_exitCode = (case code of None \<Rightarrow> 0 | Some c \<Rightarrow> c),
                      res_success = (lastComplete events = Some (lit ''success''))\<rparr>)"
proof -
  obtain out ns succ where f:
    "foldl (onEvent (opt_sessionId options)) ([], opt_sessionId options, False) events =
       (out, ns, succ)"
    by (cases "foldl (onEvent (opt_sessionId options)) ([], opt_sessionId options, False)
        events") auto
  from foldl_onEvent [of "opt_sessionId options" "[]" "opt_sessionId options" False events] f
  have o: "out = accumulated events"
    and s: "succ = (lastComplete events = Some (lit ''success''))"
    by (auto split: option.splits)
  show ?thesis
    by (simp add: executeTask_def assms f o s Let_def)
qed

section \<open>Properties of the release action\<close>

text \<open>
  Claim C5, evaluated where it fails. For a child that is running when the finalizer
  starts, \<open>SIGTERM\<close> is sent and sets \<open>killed\<close>, so the test after the sleep finds
  \<open>killed\<close> set and \<open>SIGKILL\<close> is never sent, whether or not the child has exited.
\<close>

theorem release_skips_sigkill:
  "release \<lparr>pid = Some 4242, killed = False\<rparr> True = [Kill SIGTERM, Sleep 1000] \<and>
   Kill SIGKILL \<notin> set (release process True)"
  by (simp add: release_def kill_def)

end
